theory Spec2Isabelle
  imports Main "HOL-Library.Word" "HOL-Library.List_Lexorder" "HOL-Library.Multiset"
begin

section \<open>Semantic analysis of INSERT statements (yb/sql/ptree/pt\_insert.cc)\<close>

text \<open>
  \<open>PTInsertStmt::Analyze\<close> returns a \<open>Status\<close>: either \<open>Status::OK()\<close> or the error that
  \<open>sem_context->Error(loc, code)\<close> builds from an \<open>ErrorCode\<close>. The error codes named in the
  file are constructors of their own; \<open>OTHER_ERROR\<close> stands for every code that only the
  callees of \<open>Analyze\<close> produce.
\<close>

datatype ErrorCode =
    TOO_FEW_ARGUMENTS
  | TOO_MANY_ARGUMENTS
  | UNDEFINED_COLUMN
  | DATATYPE_MISMATCH
  | DUPLICATE_COLUMN
  | MISSING_ARGUMENT_FOR_PRIMARY_KEY
  | NULL_ARGUMENT_FOR_PRIMARY_KEY
  | OTHER_ERROR nat

datatype Status = OK | Error ErrorCode

text \<open>
  What stops \<open>Analyze\<close> without a \<open>Status\<close>: \<open>std::vector::at\<close> throws \<open>std::out_of_range\<close>,
  and dereferencing a null pointer or a past-the-end iterator has no defined result.
\<close>

datatype abort = OutOfRange | InvalidDereference

datatype ExprOperator = kBindVar | kOtherOp

record ColumnDesc =
  index :: nat
  yql_type :: nat

text \<open>
  An expression of the value clause, as far as \<open>Analyze\<close> looks at it: the statuses of its
  own \<open>Analyze\<close> and \<open>CheckRhsExpr\<close>, its operator, whether it is the null literal, and the
  column description that \<open>PTBindVar::set_desc\<close> stores in a bind variable.
\<close>

record PTExpr =
  expr_Analyze :: Status
  expr_CheckRhsExpr :: Status
  expr_op :: ExprOperator
  is_null :: bool
  desc :: "ColumnDesc option"

record SemContext =
  GetColumnDesc :: "string \<Rightarrow> ColumnDesc option"
  IsConvertible :: "PTExpr \<Rightarrow> nat \<Rightarrow> bool"

text \<open>
  A \<open>ColumnArg\<close> is initialised (\<open>IsInitialized()\<close>) once \<open>Init(col_desc, expr)\<close> has stored
  a column description and an expression in it.
\<close>

type_synonym ColumnArg = "(ColumnDesc \<times> PTExpr) option"

text \<open>
  The statement when line 67 is reached. The three status fields are the results of
  \<open>PTDmlStmt::Analyze\<close>, \<open>relation_->Analyze\<close> and \<open>LookupTable\<close>; \<open>num_columns\<close> and
  \<open>num_key_columns\<close> are what the base class reports for the table; \<open>columns_\<close> is the
  optional column list (\<open>None\<close> for a null pointer); \<open>value_clause_\<close> is the list of tuples;
  the last two fields are the results of \<open>AnalyzeIfClause\<close> and \<open>AnalyzeUsingClause\<close>.
\<close>

record PTInsertStmt =
  dml_Analyze :: Status
  relation_Analyze :: Status
  LookupTable :: Status
  num_columns :: nat
  num_key_columns :: nat
  columns :: "string list option"
  value_clause :: "PTExpr list list"
  column_args :: "ColumnArg list"
  AnalyzeIfClause :: Status
  AnalyzeUsingClause :: Status

text \<open>\<open>std::vector::resize\<close>: keeps the first \<open>n\<close> entries, pads with default ones.\<close>

definition resize :: "nat \<Rightarrow> ColumnArg list \<Rightarrow> ColumnArg list" where
  "resize n args = take n args @ replicate (n - length args) None"

text \<open>Lines 75 to 78: every expression is analysed, the first failure is returned.\<close>

fun analyze_exprs :: "PTExpr list \<Rightarrow> Status" where
  "analyze_exprs [] = OK"
| "analyze_exprs (expr # exprs) =
     (if expr_Analyze expr \<noteq> OK then expr_Analyze expr
      else if expr_CheckRhsExpr expr \<noteq> OK then expr_CheckRhsExpr expr
      else analyze_exprs exprs)"

text \<open>
  Lines 94 to 119: the loop over the column names, with \<open>iter\<close> walking the expressions.
  The result is the status together with \<open>column_args_\<close> as the loop leaves it.
\<close>

fun init_column_args ::
  "SemContext \<Rightarrow> string list \<Rightarrow> PTExpr list \<Rightarrow> ColumnArg list \<Rightarrow> abort + (Status \<times> ColumnArg list)"
where
  "init_column_args ctx [] exprs args = Inr (OK, args)"
| "init_column_args ctx (name # names) exprs args =
     (case GetColumnDesc ctx name of
        None \<Rightarrow> Inr (Error UNDEFINED_COLUMN, args)
      | Some col_desc \<Rightarrow>
          (case exprs of
             [] \<Rightarrow> Inl InvalidDereference
           | expr # rest \<Rightarrow>
               if expr_op expr \<noteq> kBindVar \<and> \<not> IsConvertible ctx expr (yql_type col_desc)
               then Inr (Error DATATYPE_MISMATCH, args)
               else
                 let var = (if expr_op expr = kBindVar then expr\<lparr>desc := Some col_desc\<rparr> else expr);
                     idx = index col_desc
                 in if length args \<le> idx then Inl OutOfRange
                    else if args ! idx \<noteq> None then Inr (Error DUPLICATE_COLUMN, args)
                    else init_column_args ctx names rest (args[idx := Some (col_desc, var)])))"

text \<open>
  Lines 82 to 148. With a column list the counts are compared and the loop above runs.
  Without one the counts are compared against the table, and then line 133 takes
  \<open>columns_->node_list().cbegin()\<close> although \<open>columns_\<close> is null on this branch.
\<close>

definition match_columns ::
  "SemContext \<Rightarrow> PTInsertStmt \<Rightarrow> PTExpr list \<Rightarrow> ColumnArg list \<Rightarrow> abort + (Status \<times> ColumnArg list)"
where
  "match_columns ctx s exprs args =
     (case columns s of
        Some names \<Rightarrow>
          if length names \<noteq> length exprs then
            (if length names > length exprs then Inr (Error TOO_FEW_ARGUMENTS, args)
             else Inr (Error TOO_MANY_ARGUMENTS, args))
          else init_column_args ctx names exprs args
      | None \<Rightarrow>
          if length exprs \<noteq> num_columns s then
            (if length exprs > num_columns s then Inr (Error TOO_MANY_ARGUMENTS, args)
             else Inr (Error TOO_FEW_ARGUMENTS, args))
          else Inl InvalidDereference)"

text \<open>Lines 152 to 160: the loop over the primary-key columns, \<open>idx\<close> from 0 to \<open>num_keys - 1\<close>.\<close>

fun check_key_args :: "ColumnArg list \<Rightarrow> nat list \<Rightarrow> abort + Status" where
  "check_key_args args [] = Inr OK"
| "check_key_args args (idx # rest) =
     (if length args \<le> idx then Inl OutOfRange
      else case args ! idx of
             None \<Rightarrow> Inr (Error MISSING_ARGUMENT_FOR_PRIMARY_KEY)
           | Some (col_desc, expr) \<Rightarrow>
               if is_null expr then Inr (Error NULL_ARGUMENT_FOR_PRIMARY_KEY)
               else check_key_args args rest)"

text \<open>Lines 150 to 168: the primary-key check, then the IF and USING clauses.\<close>

definition finish_Analyze :: "PTInsertStmt \<Rightarrow> ColumnArg list \<Rightarrow> abort + (Status \<times> ColumnArg list)" where
  "finish_Analyze s args =
     (case check_key_args args [0 ..< num_key_columns s] of
        Inl a \<Rightarrow> Inl a
      | Inr (Error code) \<Rightarrow> Inr (Error code, args)
      | Inr OK \<Rightarrow>
          if AnalyzeIfClause s \<noteq> OK then Inr (AnalyzeIfClause s, args)
          else if AnalyzeUsingClause s \<noteq> OK then Inr (AnalyzeUsingClause s, args)
          else Inr (OK, args))"

text \<open>\<open>PTInsertStmt::Analyze\<close>: the returned status and \<open>column_args_\<close> as it is left.\<close>

definition Analyze :: "SemContext \<Rightarrow> PTInsertStmt \<Rightarrow> abort + (Status \<times> ColumnArg list)" where
  "Analyze ctx s =
     (if dml_Analyze s \<noteq> OK then Inr (dml_Analyze s, column_args s)
      else if relation_Analyze s \<noteq> OK then Inr (relation_Analyze s, column_args s)
      else if LookupTable s \<noteq> OK then Inr (LookupTable s, column_args s)
      else
        (case value_clause s of
           [] \<Rightarrow> Inr (Error TOO_FEW_ARGUMENTS, column_args s)
         | exprs # tuples \<Rightarrow>
             if analyze_exprs exprs \<noteq> OK then Inr (analyze_exprs exprs, column_args s)
             else
               (case match_columns ctx s exprs (resize (num_columns s) (column_args s)) of
                  Inl a \<Rightarrow> Inl a
                | Inr (Error code, args) \<Rightarrow> Inr (Error code, args)
                | Inr (OK, args) \<Rightarrow> finish_Analyze s args)))"

text \<open>The statement reaches the value-count checks: the table lookup has succeeded.\<close>

definition table_found :: "PTInsertStmt \<Rightarrow> bool" where
  "table_found s \<longleftrightarrow> dml_Analyze s = OK \<and> relation_Analyze s = OK \<and> LookupTable s = OK"

subsection \<open>Predicates of the properties, and concrete statements\<close>

text \<open>An initialised argument whose expression is not the null literal.\<close>

definition has_non_null_argument :: "ColumnArg \<Rightarrow> bool" where
  "has_non_null_argument arg = (case arg of None \<Rightarrow> False | Some (col_desc, expr) \<Rightarrow> \<not> is_null expr)"

text \<open>The first primary-key column, in the order of the column index, that has no non-null
  argument in \<open>column_args_\<close>.\<close>

definition first_unset_key :: "ColumnArg list \<Rightarrow> nat \<Rightarrow> nat option" where
  "first_unset_key args num_keys = find (\<lambda>idx. \<not> has_non_null_argument (args ! idx)) [0 ..< num_keys]"

text \<open>A constant expression that passes its own analysis; the flag says whether it is \<open>null\<close>.\<close>

definition literal :: "bool \<Rightarrow> PTExpr" where
  "literal null = \<lparr>expr_Analyze = OK, expr_CheckRhsExpr = OK, expr_op = kOtherOp, is_null = null, desc = None\<rparr>"

definition col :: "nat \<Rightarrow> ColumnDesc" where
  "col i = \<lparr>index = i, yql_type = 0\<rparr>"

text \<open>A table with the primary key \<open>(k1, k2)\<close> and one more column \<open>v\<close>, used to run the
  analysis on concrete statements below.\<close>

definition table_ctx :: SemContext where
  "table_ctx = \<lparr>GetColumnDesc = map_of [(''k1'', col 0), (''k2'', col 1), (''v'', col 2)],
                 IsConvertible = (\<lambda>expr ty. True)\<rparr>"

text \<open>A statement on that table, not analysed before: its column list and its tuples.\<close>

definition insert_stmt :: "string list option \<Rightarrow> PTExpr list list \<Rightarrow> PTInsertStmt" where
  "insert_stmt names tuples =
     \<lparr>dml_Analyze = OK, relation_Analyze = OK, LookupTable = OK, num_columns = 3,
      num_key_columns = 2, columns = names, value_clause = tuples, column_args = [],
      AnalyzeIfClause = OK, AnalyzeUsingClause = OK\<rparr>"

text \<open>\<open>INSERT INTO t (k1, v) VALUES (null, 1)\<close>: the key column \<open>k1\<close> is null and the key column
  \<open>k2\<close> has no argument.\<close>

definition null_key_stmt :: PTInsertStmt where
  "null_key_stmt = insert_stmt (Some [''k1'', ''v'']) [[literal True, literal False]]"

definition null_key_args :: "ColumnArg list" where
  "null_key_args = [Some (col 0, literal True), None, Some (col 2, literal False)]"

text \<open>
  \<open>INSERT INTO missing (k1, k2, v) VALUES (1, 2)\<close>: three names for two values, on a table that
  \<open>LookupTable\<close> does not find (its error code is not one of this file's).
\<close>

definition missing_table_stmt :: PTInsertStmt where
  "missing_table_stmt =
     (insert_stmt (Some [''k1'', ''k2'', ''v'']) [[literal False, literal False]])
       \<lparr>LookupTable := Error (OTHER_ERROR 0)\<rparr>"

text \<open>An expression whose own analysis fails, with an error code that is not one of this file's.\<close>

definition bad_expr :: PTExpr where
  "bad_expr = (literal False)\<lparr>expr_Analyze := Error (OTHER_ERROR 1)\<rparr>"

text \<open>\<open>INSERT INTO t (k1) VALUES (1, <bad expression>)\<close>: one name for two values.\<close>

definition bad_expr_stmt :: PTInsertStmt where
  "bad_expr_stmt = insert_stmt (Some [''k1'']) [[literal False, bad_expr]]"

section \<open>Lock planning of a write batch (yb/docdb/docdb.h)\<close>

text \<open>
  \<open>docdb.h\<close> declares \<open>PrepareDocWriteTransaction\<close> and describes it in a comment (lines 152 to
  174); its body is in \<open>docdb.cc\<close> and the \<open>DocOperation\<close> class in \<open>doc_operation.h\<close>. The
  definitions of this section follow section 4.8 of the specification and that comment.
\<close>

text \<open>An encoded path: a byte string, compared bytewise (a proper prefix sorts first).\<close>

type_synonym KeyBytes = "8 word list"

datatype LockMode = shared | exclusive

text \<open>
  Modelled from the spec: the \<open>DocOperation\<close> interface (doc\_operation.h is missing). An
  operation reports the (encoded path, lock mode) pairs it needs and whether it needs a read
  snapshot.
\<close>

record DocOperation =
  lock_pairs :: "(KeyBytes \<times> LockMode) list"
  needs_read_snapshot :: bool

text \<open>
  Modelled from the spec: the locks of a write (the operations' own code is missing), given
  the encoded prefixes of its path from the root to the target: ancestors shared, target
  exclusive.
\<close>

definition write_op :: "KeyBytes list \<Rightarrow> DocOperation" where
  "write_op prefixes =
     \<lparr>lock_pairs = (case prefixes of
                      [] \<Rightarrow> []
                    | _ \<Rightarrow> map (\<lambda>path. (path, shared)) (butlast prefixes) @ [(last prefixes, exclusive)]),
      needs_read_snapshot = False\<rparr>"

text \<open>Modelled from the spec: step 1 of the LockPlanner (docdb.cc is missing): gather all pairs.\<close>

definition gather :: "DocOperation list \<Rightarrow> (KeyBytes \<times> LockMode) list" where
  "gather doc_write_ops = concat (map lock_pairs doc_write_ops)"

text \<open>
  Modelled from the spec: step 2 of the LockPlanner (docdb.cc is missing): group by encoded
  path; a group that contains \<open>exclusive\<close> is promoted to \<open>exclusive\<close>.
\<close>

definition promote :: "(KeyBytes \<times> LockMode) list \<Rightarrow> (KeyBytes \<times> LockMode) list" where
  "promote pairs =
     map (\<lambda>(path, mode). (path, if (path, exclusive) \<in> set pairs then exclusive else mode)) pairs"

text \<open>
  Modelled from the spec: steps 3 and 4 of the LockPlanner (docdb.cc is missing): sort by
  encoded path bytewise and return the sorted deduplicated list.
\<close>

definition LockPlanner :: "DocOperation list \<Rightarrow> (KeyBytes \<times> LockMode) list" where
  "LockPlanner doc_write_ops = remdups_adj (sort_key fst (promote (gather doc_write_ops)))"

text \<open>
  Modelled from the spec: the outputs of \<open>PrepareDocWriteTransaction\<close> (docdb.cc is missing):
  the locks in the order in which the lock manager is asked for them, and the two
  out-parameters of the declaration in \<open>docdb.h\<close>.
\<close>

record PreparedTransaction =
  locks_taken :: "(KeyBytes \<times> LockMode) list"
  keys_locked :: "KeyBytes list"
  need_read_snapshot :: bool

text \<open>
  Modelled from the spec: the body of \<open>PrepareDocWriteTransaction\<close> (docdb.cc is missing).
  The locks of the plan are taken in order, their keys are returned without the modes, and
  the flag says whether any operation needs a read snapshot.
\<close>

definition PrepareDocWriteTransaction :: "DocOperation list \<Rightarrow> PreparedTransaction" where
  "PrepareDocWriteTransaction doc_write_ops =
     \<lparr>locks_taken = LockPlanner doc_write_ops,
      keys_locked = map fst (LockPlanner doc_write_ops),
      need_read_snapshot = list_ex needs_read_snapshot doc_write_ops\<rparr>"

text \<open>Some operation of the batch asks for this mode on this path.\<close>

definition requested :: "DocOperation list \<Rightarrow> KeyBytes \<Rightarrow> LockMode \<Rightarrow> bool" where
  "requested doc_write_ops path mode \<longleftrightarrow>
     (\<exists>op \<in> set doc_write_ops. (path, mode) \<in> set (lock_pairs op))"

text \<open>
  The batch of the comment in \<open>docdb.h\<close>: \<open>a.b = {}, a.b.c = 1, a.b.d = 2, e.d = 3\<close>, each path
  component encoded as one byte.
\<close>

definition example_batch :: "DocOperation list" where
  "example_batch =
     [write_op [[97], [97, 98]],
      write_op [[97], [97, 98], [97, 98, 99]],
      write_op [[97], [97, 98], [97, 98, 100]],
      write_op [[101], [101, 100]]]"

section \<open>Properties of the INSERT analysis\<close>

lemma length_init_column_args:
  "init_column_args ctx names exprs args = Inr (st, args') \<Longrightarrow> length args' = length args"
  by (induction ctx names exprs args rule: init_column_args.induct)
     (auto split: option.splits list.splits if_splits simp: Let_def)

lemma length_match_columns:
  "match_columns ctx s exprs args = Inr (st, args') \<Longrightarrow> length args' = length args"
  by (auto simp: match_columns_def split: option.splits if_splits dest: length_init_column_args)

lemma length_resize: "length (resize n args) = n"
  by (simp add: resize_def)

lemma check_key_args_find:
  "\<forall>idx \<in> set idxs. idx < length args \<Longrightarrow>
   check_key_args args idxs =
     (case find (\<lambda>idx. \<not> has_non_null_argument (args ! idx)) idxs of
        None \<Rightarrow> Inr OK
      | Some idx \<Rightarrow> Inr (Error (if args ! idx = None then MISSING_ARGUMENT_FOR_PRIMARY_KEY
                                 else NULL_ARGUMENT_FOR_PRIMARY_KEY)))"
  by (induction idxs) (auto simp: has_non_null_argument_def split: option.splits)

lemma check_key_args_OK:
  "check_key_args args idxs = Inr OK \<Longrightarrow> idx \<in> set idxs \<Longrightarrow>
   idx < length args \<and> has_non_null_argument (args ! idx)"
  by (induction idxs) (auto simp: has_non_null_argument_def split: option.splits if_splits)

lemma finish_Analyze_OK:
  "finish_Analyze s args = Inr (OK, args') \<Longrightarrow>
   args' = args \<and> check_key_args args [0 ..< num_key_columns s] = Inr OK"
  by (auto simp: finish_Analyze_def split: sum.splits Status.splits if_splits)

lemma Analyze_OK:
  "Analyze ctx s = Inr (OK, args) \<Longrightarrow>
   \<exists>exprs tuples. value_clause s = exprs # tuples \<and>
     match_columns ctx s exprs (resize (num_columns s) (column_args s)) = Inr (OK, args) \<and>
     check_key_args args [0 ..< num_key_columns s] = Inr OK"
  by (auto simp: Analyze_def split: if_splits list.splits sum.splits Status.splits prod.splits
           dest!: finish_Analyze_OK)

lemma match_columns_OK:
  "match_columns ctx s exprs args = Inr (OK, args') \<Longrightarrow>
   (case columns s of Some names \<Rightarrow> length names = length exprs
                     | None \<Rightarrow> length exprs = num_columns s)"
  by (auto simp: match_columns_def split: option.splits if_splits)

text \<open>
  Claim C9, as the code has it. For every statement, \<open>Analyze\<close> returns \<open>OK\<close> only when the
  value clause has a tuple whose length is the length of the column list or, without a column
  list, the number of columns of the table. The error returns come after the steps of lines
  61 to 66 and 75 to 78: once the base analysis and the table lookup have succeeded, a value
  clause without tuples gives \<open>TOO_FEW_ARGUMENTS\<close>; once the expressions of the first tuple have
  passed their own analysis as well, with a column list more names than expressions give
  \<open>TOO_FEW_ARGUMENTS\<close> and fewer give \<open>TOO_MANY_ARGUMENTS\<close>, and without one more expressions than
  columns give \<open>TOO_MANY_ARGUMENTS\<close> and fewer give \<open>TOO_FEW_ARGUMENTS\<close>.
\<close>

theorem Analyze_value_counts:
  "(\<forall>args. Analyze ctx s = Inr (OK, args) \<longrightarrow>
      (\<exists>exprs tuples. value_clause s = exprs # tuples \<and>
         (case columns s of Some names \<Rightarrow> length names = length exprs
                           | None \<Rightarrow> length exprs = num_columns s))) \<and>
   (table_found s \<longrightarrow>
      (value_clause s = [] \<longrightarrow> Analyze ctx s = Inr (Error TOO_FEW_ARGUMENTS, column_args s)) \<and>
      (\<forall>exprs tuples. value_clause s = exprs # tuples \<and> analyze_exprs exprs = OK \<longrightarrow>
         (\<forall>names. columns s = Some names \<longrightarrow>
            (length exprs < length names \<longrightarrow>
               Analyze ctx s =
                 Inr (Error TOO_FEW_ARGUMENTS, resize (num_columns s) (column_args s))) \<and>
            (length names < length exprs \<longrightarrow>
               Analyze ctx s =
                 Inr (Error TOO_MANY_ARGUMENTS, resize (num_columns s) (column_args s)))) \<and>
         (columns s = None \<longrightarrow>
            (num_columns s < length exprs \<longrightarrow>
               Analyze ctx s =
                 Inr (Error TOO_MANY_ARGUMENTS, resize (num_columns s) (column_args s))) \<and>
            (length exprs < num_columns s \<longrightarrow>
               Analyze ctx s =
                 Inr (Error TOO_FEW_ARGUMENTS, resize (num_columns s) (column_args s))))))"
proof (intro conjI allI impI)
  fix args assume "Analyze ctx s = Inr (OK, args)"
  from Analyze_OK [OF this] show "\<exists>exprs tuples. value_clause s = exprs # tuples \<and>
         (case columns s of Some names \<Rightarrow> length names = length exprs
                           | None \<Rightarrow> length exprs = num_columns s)"
    by (blast dest: match_columns_OK)
qed (auto simp: Analyze_def table_found_def match_columns_def)

text \<open>Each case of C9 on a concrete statement over the three-column table.\<close>

theorem Analyze_value_counts_witness:
  "Analyze table_ctx (insert_stmt (Some [''k1'', ''k2'', ''v'']) []) =
     Inr (Error TOO_FEW_ARGUMENTS, []) \<and>
   Analyze table_ctx (insert_stmt (Some [''k1'', ''k2'', ''v'']) [[literal False, literal False]]) =
     Inr (Error TOO_FEW_ARGUMENTS, [None, None, None]) \<and>
   Analyze table_ctx (insert_stmt (Some [''k1'']) [[literal False, literal False]]) =
     Inr (Error TOO_MANY_ARGUMENTS, [None, None, None]) \<and>
   Analyze table_ctx (insert_stmt None [replicate 4 (literal False)]) =
     Inr (Error TOO_MANY_ARGUMENTS, [None, None, None]) \<and>
   Analyze table_ctx (insert_stmt None [[literal False]]) =
     Inr (Error TOO_FEW_ARGUMENTS, [None, None, None]) \<and>
   Analyze table_ctx (insert_stmt (Some [''v'', ''k2'', ''k1'']) [replicate 3 (literal False)]) =
     Inr (OK, [Some (col 0, literal False), Some (col 1, literal False), Some (col 2, literal False)]) \<and>
   length [''v'', ''k2'', ''k1''] = length (replicate 3 (literal False))"
proof -
  have found: "table_found (insert_stmt names tuples)" for names tuples
    by (simp add: table_found_def insert_stmt_def)
  have ok: "analyze_exprs (replicate n (literal False)) = OK" for n
    by (induction n) (simp_all add: literal_def)
  have ok2: "analyze_exprs [literal False, literal False] = OK" "analyze_exprs [literal False] = OK"
    by (simp_all add: literal_def)
  have rs: "resize 3 [] = [None, None, None]"
    by (simp add: resize_def numeral_3_eq_3)
  note inst = Analyze_value_counts [of table_ctx]
  have a: "Analyze table_ctx (insert_stmt (Some [''k1'', ''k2'', ''v'']) []) =
     Inr (Error TOO_FEW_ARGUMENTS, [])"
    using inst [of "insert_stmt (Some [''k1'', ''k2'', ''v'']) []"] found
    by (simp add: insert_stmt_def)
  have b: "Analyze table_ctx (insert_stmt (Some [''k1'', ''k2'', ''v'']) [[literal False, literal False]]) =
     Inr (Error TOO_FEW_ARGUMENTS, [None, None, None])"
    using inst [of "insert_stmt (Some [''k1'', ''k2'', ''v'']) [[literal False, literal False]]"] found ok2 rs
    by (simp add: insert_stmt_def)
  have c: "Analyze table_ctx (insert_stmt (Some [''k1'']) [[literal False, literal False]]) =
     Inr (Error TOO_MANY_ARGUMENTS, [None, None, None])"
    using inst [of "insert_stmt (Some [''k1'']) [[literal False, literal False]]"] found ok2 rs
    by (simp add: insert_stmt_def)
  have d: "Analyze table_ctx (insert_stmt None [replicate 4 (literal False)]) =
     Inr (Error TOO_MANY_ARGUMENTS, [None, None, None])"
    using inst [of "insert_stmt None [replicate 4 (literal False)]"] found ok [of 4] rs
    by (simp add: insert_stmt_def)
  have e: "Analyze table_ctx (insert_stmt None [[literal False]]) =
     Inr (Error TOO_FEW_ARGUMENTS, [None, None, None])"
    using inst [of "insert_stmt None [[literal False]]"] found ok2 rs
    by (simp add: insert_stmt_def)
  have f: "Analyze table_ctx (insert_stmt (Some [''v'', ''k2'', ''k1'']) [replicate 3 (literal False)]) =
     Inr (OK, [Some (col 0, literal False), Some (col 1, literal False), Some (col 2, literal False)])"
    by (simp add: Analyze_def insert_stmt_def table_ctx_def literal_def col_def resize_def
          match_columns_def finish_Analyze_def numeral_3_eq_3 upt_rec)
  from a b c d e f show ?thesis by simp
qed

text \<open>
  Claim C9 as the specification words it, for every statement, fails where an earlier step
  returns first. With three names for two values on a table that is not found, the result is
  the error of \<open>LookupTable\<close> (line 66); with one name for two values of which one fails its own
  analysis, the result is that expression's error (line 76). Neither is the count error.
\<close>

theorem Analyze_value_counts_earlier_return:
  "columns missing_table_stmt = Some [''k1'', ''k2'', ''v''] \<and>
   value_clause missing_table_stmt = [[literal False, literal False]] \<and>
   length [literal False, literal False] < length [''k1'', ''k2'', ''v''] \<and>
   Analyze table_ctx missing_table_stmt = Inr (Error (OTHER_ERROR 0), []) \<and>
   Error (OTHER_ERROR 0) \<noteq> Error TOO_FEW_ARGUMENTS \<and>
   columns bad_expr_stmt = Some [''k1''] \<and>
   value_clause bad_expr_stmt = [[literal False, bad_expr]] \<and>
   length [''k1''] < length [literal False, bad_expr] \<and>
   Analyze table_ctx bad_expr_stmt = Inr (Error (OTHER_ERROR 1), []) \<and>
   Error (OTHER_ERROR 1) \<noteq> Error TOO_MANY_ARGUMENTS"
  by (simp add: Analyze_def missing_table_stmt_def bad_expr_stmt_def bad_expr_def
        insert_stmt_def literal_def)

lemma Analyze_reaches_finish:
  assumes "table_found s" "value_clause s = exprs # tuples" "analyze_exprs exprs = OK"
    and "match_columns ctx s exprs (resize (num_columns s) (column_args s)) = Inr (OK, args)"
  shows "Analyze ctx s = finish_Analyze s args"
  using assms by (simp add: Analyze_def table_found_def)

lemma finish_Analyze_first_unset_key:
  assumes "num_key_columns s \<le> length args"
  shows "finish_Analyze s args =
    (case first_unset_key args (num_key_columns s) of
       Some idx \<Rightarrow> Inr (Error (if args ! idx = None then MISSING_ARGUMENT_FOR_PRIMARY_KEY
                                 else NULL_ARGUMENT_FOR_PRIMARY_KEY), args)
     | None \<Rightarrow> Inr (if AnalyzeIfClause s \<noteq> OK then AnalyzeIfClause s
                    else AnalyzeUsingClause s, args))"
proof -
  from assms have "\<forall>idx \<in> set [0 ..< num_key_columns s]. idx < length args"
    by simp
  from check_key_args_find [OF this] show ?thesis
    unfolding first_unset_key_def finish_Analyze_def
    by (simp split: option.splits)
qed

lemma Analyze_OK_keys:
  assumes "Analyze ctx s = Inr (OK, args)" and "idx < num_key_columns s"
  shows "idx < length args \<and> has_non_null_argument (args ! idx)"
proof -
  from Analyze_OK [OF assms(1)]
  have "check_key_args args [0 ..< num_key_columns s] = Inr OK"
    by blast
  moreover from assms(2) have "idx \<in> set [0 ..< num_key_columns s]"
    by simp
  ultimately show ?thesis
    by (rule check_key_args_OK)
qed

lemma Analyze_key_error:
  assumes "table_found s" "value_clause s = exprs # tuples" "analyze_exprs exprs = OK"
    and ok: "match_columns ctx s exprs (resize (num_columns s) (column_args s)) = Inr (OK, args)"
    and keys: "num_key_columns s \<le> num_columns s"
  shows "Analyze ctx s =
    (case first_unset_key args (num_key_columns s) of
       Some idx \<Rightarrow> Inr (Error (if args ! idx = None then MISSING_ARGUMENT_FOR_PRIMARY_KEY
                                 else NULL_ARGUMENT_FOR_PRIMARY_KEY), args)
     | None \<Rightarrow> Inr (if AnalyzeIfClause s \<noteq> OK then AnalyzeIfClause s
                    else AnalyzeUsingClause s, args))"
proof -
  have "length args = num_columns s"
    using length_match_columns [OF ok] by (simp add: length_resize)
  with keys have "num_key_columns s \<le> length args"
    by simp
  then show ?thesis
    unfolding Analyze_reaches_finish [OF assms(1-4)] by (rule finish_Analyze_first_unset_key)
qed

text \<open>
  Claim C10, as the code has it. Whenever \<open>Analyze\<close> returns \<open>OK\<close>, every primary-key column
  has a non-null argument. When the statement passes the column and value matching of lines
  82 to 148, the first primary-key column in index order without a non-null argument decides:
  \<open>MISSING_ARGUMENT_FOR_PRIMARY_KEY\<close> if it has no argument, \<open>NULL_ARGUMENT_FOR_PRIMARY_KEY\<close> if
  its argument is null; with no such column the result is that of the IF and USING clauses.
\<close>

theorem Analyze_primary_key:
  "(\<forall>args. Analyze ctx s = Inr (OK, args) \<longrightarrow>
      (\<forall>idx < num_key_columns s. idx < length args \<and> has_non_null_argument (args ! idx))) \<and>
   (\<forall>exprs tuples args.
      table_found s \<and> value_clause s = exprs # tuples \<and> analyze_exprs exprs = OK \<and>
      match_columns ctx s exprs (resize (num_columns s) (column_args s)) = Inr (OK, args) \<and>
      num_key_columns s \<le> num_columns s \<longrightarrow>
      Analyze ctx s =
        (case first_unset_key args (num_key_columns s) of
           Some idx \<Rightarrow>
             Inr (Error (if args ! idx = None then MISSING_ARGUMENT_FOR_PRIMARY_KEY
                         else NULL_ARGUMENT_FOR_PRIMARY_KEY), args)
         | None \<Rightarrow>
             Inr (if AnalyzeIfClause s \<noteq> OK then AnalyzeIfClause s
                  else AnalyzeUsingClause s, args)))"
proof (rule conjI)
  show "\<forall>args. Analyze ctx s = Inr (OK, args) \<longrightarrow>
      (\<forall>idx < num_key_columns s. idx < length args \<and> has_non_null_argument (args ! idx))"
    using Analyze_OK_keys by blast
  show "\<forall>exprs tuples args.
      table_found s \<and> value_clause s = exprs # tuples \<and> analyze_exprs exprs = OK \<and>
      match_columns ctx s exprs (resize (num_columns s) (column_args s)) = Inr (OK, args) \<and>
      num_key_columns s \<le> num_columns s \<longrightarrow>
      Analyze ctx s =
        (case first_unset_key args (num_key_columns s) of
           Some idx \<Rightarrow>
             Inr (Error (if args ! idx = None then MISSING_ARGUMENT_FOR_PRIMARY_KEY
                         else NULL_ARGUMENT_FOR_PRIMARY_KEY), args)
         | None \<Rightarrow>
             Inr (if AnalyzeIfClause s \<noteq> OK then AnalyzeIfClause s
                  else AnalyzeUsingClause s, args))"
    by (intro allI impI, elim conjE, rule Analyze_key_error)
qed

lemma null_key_stmt_match:
  "match_columns table_ctx null_key_stmt [literal True, literal False]
     (resize (num_columns null_key_stmt) (column_args null_key_stmt)) = Inr (OK, null_key_args)"
  by (simp add: null_key_stmt_def null_key_args_def insert_stmt_def table_ctx_def literal_def
        col_def resize_def match_columns_def numeral_3_eq_3)

lemma null_key_stmt_facts:
  "table_found null_key_stmt"
  "value_clause null_key_stmt = [[literal True, literal False]]"
  "analyze_exprs [literal True, literal False] = OK"
  "num_key_columns null_key_stmt = 2" "num_columns null_key_stmt = 3"
  by (simp_all add: null_key_stmt_def insert_stmt_def table_found_def literal_def)

text \<open>The primary-key check of C10 on concrete statements.\<close>

theorem Analyze_primary_key_witness:
  "first_unset_key null_key_args (num_key_columns null_key_stmt) = Some 0 \<and>
   Analyze table_ctx null_key_stmt = Inr (Error NULL_ARGUMENT_FOR_PRIMARY_KEY, null_key_args) \<and>
   Analyze table_ctx (insert_stmt (Some [''v'', ''k1'']) [[literal False, literal False]]) =
     Inr (Error MISSING_ARGUMENT_FOR_PRIMARY_KEY,
          [Some (col 0, literal False), None, Some (col 2, literal False)]) \<and>
   Analyze table_ctx (insert_stmt (Some [''k2'', ''k1'']) [[literal False, literal False]]) =
     Inr (OK, [Some (col 0, literal False), Some (col 1, literal False), None]) \<and>
   has_non_null_argument ([Some (col 0, literal False), Some (col 1, literal False), None] ! 1)"
proof -
  have first: "first_unset_key null_key_args (num_key_columns null_key_stmt) = Some 0"
    by (simp add: first_unset_key_def null_key_stmt_facts null_key_args_def
          has_non_null_argument_def literal_def upt_rec)
  have "null_key_args ! 0 \<noteq> None"
    by (simp add: null_key_args_def)
  with first Analyze_primary_key [of table_ctx null_key_stmt] null_key_stmt_match null_key_stmt_facts
  have null: "Analyze table_ctx null_key_stmt = Inr (Error NULL_ARGUMENT_FOR_PRIMARY_KEY, null_key_args)"
    by (auto split: option.splits)
  let ?s = "insert_stmt (Some [''v'', ''k1'']) [[literal False, literal False]]"
  let ?args = "[Some (col 0, literal False), None, Some (col 2, literal False)]"
  have "match_columns table_ctx ?s [literal False, literal False]
          (resize (num_columns ?s) (column_args ?s)) = Inr (OK, ?args)"
    by (simp add: insert_stmt_def table_ctx_def literal_def col_def resize_def match_columns_def
          numeral_3_eq_3)
  moreover have "table_found ?s" "value_clause ?s = [[literal False, literal False]]"
    "analyze_exprs [literal False, literal False] = OK" "num_key_columns ?s \<le> num_columns ?s"
    by (simp_all add: insert_stmt_def table_found_def literal_def)
  moreover have "first_unset_key ?args (num_key_columns ?s) = Some 1"
    by (simp add: first_unset_key_def insert_stmt_def has_non_null_argument_def literal_def upt_rec)
  ultimately have missing: "Analyze table_ctx ?s = Inr (Error MISSING_ARGUMENT_FOR_PRIMARY_KEY, ?args)"
    using Analyze_primary_key [of table_ctx ?s] by (auto split: option.splits)
  let ?t = "insert_stmt (Some [''k2'', ''k1'']) [[literal False, literal False]]"
  let ?full = "[Some (col 0, literal False), Some (col 1, literal False), None]"
  have "match_columns table_ctx ?t [literal False, literal False]
          (resize (num_columns ?t) (column_args ?t)) = Inr (OK, ?full)"
    by (simp add: insert_stmt_def table_ctx_def literal_def col_def resize_def match_columns_def
          numeral_3_eq_3)
  moreover have "table_found ?t" "value_clause ?t = [[literal False, literal False]]"
    "analyze_exprs [literal False, literal False] = OK" "num_key_columns ?t \<le> num_columns ?t"
    "AnalyzeIfClause ?t = OK" "AnalyzeUsingClause ?t = OK"
    by (simp_all add: insert_stmt_def table_found_def literal_def)
  moreover have "first_unset_key ?full (num_key_columns ?t) = None"
    by (simp add: first_unset_key_def insert_stmt_def has_non_null_argument_def literal_def upt_rec)
  ultimately have ok: "Analyze table_ctx ?t = Inr (OK, ?full)"
    using Analyze_primary_key [of table_ctx ?t] by (auto split: option.splits)
  have "1 < num_key_columns ?t"
    by (simp add: insert_stmt_def)
  with ok Analyze_primary_key [of table_ctx ?t] have "has_non_null_argument (?full ! 1)"
    by blast
  with first null missing ok show ?thesis
    by simp
qed

text \<open>
  Claim C10 as the specification words it fails on \<open>INSERT INTO t (k1, v) VALUES (null, 1)\<close>:
  the primary-key column \<open>k2\<close> has no argument, and the result is
  \<open>NULL_ARGUMENT_FOR_PRIMARY_KEY\<close> for \<open>k1\<close>, not \<open>MISSING_ARGUMENT_FOR_PRIMARY_KEY\<close>.
\<close>

theorem Analyze_primary_key_first_column_decides:
  "table_found null_key_stmt \<and>
   value_clause null_key_stmt = [[literal True, literal False]] \<and>
   analyze_exprs [literal True, literal False] = OK \<and>
   match_columns table_ctx null_key_stmt [literal True, literal False]
     (resize (num_columns null_key_stmt) (column_args null_key_stmt)) = Inr (OK, null_key_args) \<and>
   (1::nat) < num_key_columns null_key_stmt \<and>
   null_key_args ! 1 = None \<and>
   Analyze table_ctx null_key_stmt \<noteq> Inr (Error MISSING_ARGUMENT_FOR_PRIMARY_KEY, null_key_args) \<and>
   Analyze table_ctx null_key_stmt = Inr (Error NULL_ARGUMENT_FOR_PRIMARY_KEY, null_key_args)"
proof -
  have "Analyze table_ctx null_key_stmt = Inr (Error NULL_ARGUMENT_FOR_PRIMARY_KEY, null_key_args)"
    by (simp add: Analyze_reaches_finish [OF null_key_stmt_facts(1,2,3) null_key_stmt_match]
          finish_Analyze_def null_key_stmt_facts null_key_args_def literal_def upt_rec)
  then show ?thesis
    using null_key_stmt_match null_key_stmt_facts by (simp add: null_key_args_def)
qed

section \<open>Properties of the lock plan\<close>

lemma set_gather: "set (gather ops) = (\<Union>op \<in> set ops. set (lock_pairs op))"
  by (simp add: gather_def)

lemma promote_iff:
  "(path, mode) \<in> set (promote pairs) \<longleftrightarrow>
     path \<in> fst ` set pairs \<and>
     mode = (if (path, exclusive) \<in> set pairs then exclusive else shared)"
proof -
  have "(path, mode) \<in> set (promote pairs) \<longleftrightarrow>
      (\<exists>m. (path, m) \<in> set pairs \<and>
           mode = (if (path, exclusive) \<in> set pairs then exclusive else m))"
    unfolding promote_def by (force simp: image_iff)
  also have "\<dots> \<longleftrightarrow> (\<exists>m. (path, m) \<in> set pairs) \<and>
      mode = (if (path, exclusive) \<in> set pairs then exclusive else shared)"
  proof (cases "(path, exclusive) \<in> set pairs")
    case True
    then show ?thesis by auto
  next
    case False
    then have "(path, m) \<in> set pairs \<Longrightarrow> m = shared" for m
      by (cases m) auto
    with False show ?thesis by auto
  qed
  also have "(\<exists>m. (path, m) \<in> set pairs) \<longleftrightarrow> path \<in> fst ` set pairs"
    by force
  finally show ?thesis .
qed

lemma inj_on_fst_promote: "inj_on fst (set (promote pairs))"
  by (rule inj_onI) (auto simp: promote_iff)

lemma remdups_adj_map_inj_on:
  "inj_on f (set xs) \<Longrightarrow> map f (remdups_adj xs) = remdups_adj (map f xs)"
  by (induction xs rule: remdups_adj.induct) (auto simp: inj_on_def)

lemma strict_sorted_remdups_adj:
  fixes xs :: "'a::linorder list"
  shows "sorted xs \<Longrightarrow> sorted_wrt (<) (remdups_adj xs)"
  by (induction xs rule: remdups_adj.induct) (auto simp: less_le)

lemma set_LockPlanner: "set (LockPlanner ops) = set (promote (gather ops))"
  by (simp add: LockPlanner_def)

lemma strict_sorted_LockPlanner: "sorted_wrt (<) (map fst (LockPlanner ops))"
proof -
  have "inj_on fst (set (sort_key fst (promote (gather ops))))"
    by (simp add: inj_on_fst_promote)
  then have "map fst (LockPlanner ops) = remdups_adj (map fst (sort_key fst (promote (gather ops))))"
    unfolding LockPlanner_def by (rule remdups_adj_map_inj_on)
  then show ?thesis
    by (simp add: strict_sorted_remdups_adj)
qed

lemma LockPlanner_iff:
  "(path, mode) \<in> set (LockPlanner ops) \<longleftrightarrow>
     (\<exists>m. requested ops path m) \<and>
     mode = (if requested ops path exclusive then exclusive else shared)"
proof -
  have "(path, m) \<in> set (gather ops) \<longleftrightarrow> requested ops path m" for m
    by (auto simp: set_gather requested_def)
  moreover have "path \<in> fst ` set (gather ops) \<longleftrightarrow> (\<exists>m. (path, m) \<in> set (gather ops))"
    by force
  ultimately show ?thesis
    by (simp add: set_LockPlanner promote_iff)
qed

lemma LockPlanner_unique:
  assumes "set (LockPlanner ops) = set (LockPlanner ops')"
  shows "LockPlanner ops = LockPlanner ops'"
proof (rule map_sorted_distinct_set_unique [where f = fst])
  show "inj_on fst (set (LockPlanner ops) \<union> set (LockPlanner ops'))"
    using assms by (simp add: set_LockPlanner inj_on_fst_promote)
  show "sorted (map fst (LockPlanner ops))" "distinct (map fst (LockPlanner ops))"
    "sorted (map fst (LockPlanner ops'))" "distinct (map fst (LockPlanner ops'))"
    using strict_sorted_LockPlanner [of ops] strict_sorted_LockPlanner [of ops']
    by (simp_all add: strict_sorted_iff)
qed (fact assms)

lemma LockPlanner_cong:
  assumes "set ops = set ops'"
  shows "LockPlanner ops = LockPlanner ops'"
proof (rule LockPlanner_unique)
  from assms have "requested ops = requested ops'"
    by (simp add: requested_def fun_eq_iff)
  then show "set (LockPlanner ops) = set (LockPlanner ops')"
    by (auto simp: LockPlanner_iff)
qed

text \<open>
  Claim C6. The keys returned by \<open>PrepareDocWriteTransaction\<close> are the paths of the locks it
  takes, in strictly ascending bytewise order (sorted, no duplicates). A lock is in the plan
  exactly when some operation requests its path, and its mode is \<open>exclusive\<close> exactly when
  some operation requests the path in exclusive mode (so a path requested in both modes is
  exclusive). Every permutation of the operations gives the same output.
\<close>

theorem PrepareDocWriteTransaction_lock_plan:
  "sorted_wrt (<) (keys_locked (PrepareDocWriteTransaction ops)) \<and>
   keys_locked (PrepareDocWriteTransaction ops) = map fst (locks_taken (PrepareDocWriteTransaction ops)) \<and>
   (\<forall>path mode. (path, mode) \<in> set (locks_taken (PrepareDocWriteTransaction ops)) \<longleftrightarrow>
      (\<exists>m. requested ops path m) \<and>
      mode = (if requested ops path exclusive then exclusive else shared)) \<and>
   (\<forall>ops'. mset ops' = mset ops \<longrightarrow>
      PrepareDocWriteTransaction ops' = PrepareDocWriteTransaction ops)"
proof (intro conjI allI impI)
  fix ops' assume "mset ops' = mset ops"
  then have eq: "set ops' = set ops"
    by (rule mset_eq_setD)
  then have "list_ex needs_read_snapshot ops' = list_ex needs_read_snapshot ops"
    by (simp add: list_ex_iff)
  with LockPlanner_cong [OF eq]
  show "PrepareDocWriteTransaction ops' = PrepareDocWriteTransaction ops"
    by (simp add: PrepareDocWriteTransaction_def)
qed (simp_all add: PrepareDocWriteTransaction_def strict_sorted_LockPlanner LockPlanner_iff)

lemma gather_example_batch:
  "gather example_batch =
     [([97], shared), ([97, 98], exclusive),
      ([97], shared), ([97, 98], shared), ([97, 98, 99], exclusive),
      ([97], shared), ([97, 98], shared), ([97, 98, 100], exclusive),
      ([101], shared), ([101, 100], exclusive)]"
  by (simp add: gather_def example_batch_def write_op_def)

lemma LockPlanner_example_batch:
  "LockPlanner example_batch =
     [([97], shared), ([97, 98], exclusive), ([97, 98, 99], exclusive),
      ([97, 98, 100], exclusive), ([101], shared), ([101, 100], exclusive)]"
  unfolding LockPlanner_def gather_example_batch
  by (simp add: promote_def list_le_def)

text \<open>
  The batch \<open>a.b = {}, a.b.c = 1, a.b.d = 2, e.d = 3\<close> of the comment in \<open>docdb.h\<close>: \<open>a.b\<close> is
  requested in both modes and locked exclusively, and the reversed batch gives the same plan.
\<close>

theorem PrepareDocWriteTransaction_lock_plan_witness:
  "locks_taken (PrepareDocWriteTransaction example_batch) =
     [([97], shared), ([97, 98], exclusive), ([97, 98, 99], exclusive),
      ([97, 98, 100], exclusive), ([101], shared), ([101, 100], exclusive)] \<and>
   keys_locked (PrepareDocWriteTransaction example_batch) =
     [[97], [97, 98], [97, 98, 99], [97, 98, 100], [101], [101, 100]] \<and>
   requested example_batch [97, 98] shared \<and>
   requested example_batch [97, 98] exclusive \<and>
   mset (rev example_batch) = mset example_batch \<and>
   PrepareDocWriteTransaction (rev example_batch) = PrepareDocWriteTransaction example_batch"
proof -
  have "mset (rev example_batch) = mset example_batch"
    by simp
  moreover from this PrepareDocWriteTransaction_lock_plan [of example_batch]
  have "PrepareDocWriteTransaction (rev example_batch) = PrepareDocWriteTransaction example_batch"
    by blast
  moreover have "requested example_batch [97, 98] shared" "requested example_batch [97, 98] exclusive"
    by (simp_all add: requested_def example_batch_def write_op_def)
  ultimately show ?thesis
    by (simp add: PrepareDocWriteTransaction_def LockPlanner_example_batch)
qed

end
